theory Spec2Isabelle
  imports Complex_Main "HOL-Library.Monad_Syntax"
begin

section \<open>JavaScript numbers\<close>

text \<open>
  A JavaScript \<^verbatim>\<open>number\<close> is a binary64 value: finite, one of the two infinities,
  or NaN. A finite value is carried as the real number it denotes (\<open>isDouble\<close> says
  which reals are binary64 values); the sign of zero is not modelled. The result of an
  arithmetic operation on finite values is the exact result rounded to binary64
  (\<open>round64\<close>). The special values follow IEEE 754 as JavaScript has them: every
  comparison with NaN is false, \<^verbatim>\<open>Infinity - Infinity\<close> and \<^verbatim>\<open>0 * Infinity\<close> are NaN.
\<close>

datatype jsnum = NaN | PInf | NInf | Fin real

text \<open>
  Rounding to binary64, to nearest with ties to even. \<open>binade x\<close> is the exponent of
  the power of two at or below \<open>|x|\<close>; the last place of a value of that size has the
  exponent \<open>ulpExp x\<close>, 52 below it and never below -1074 (the subnormal numbers);
  \<open>roundTo e x\<close> is the multiple of \<open>2 ^ e\<close> nearest to \<open>x\<close>, the even one of two
  that are equally near. A result at or beyond \<open>2 ^ 1024\<close> is an infinity.
\<close>

definition binade :: "real \<Rightarrow> int" where
  "binade x = \<lfloor>log 2 \<bar>x\<bar>\<rfloor>"

definition ulpExp :: "real \<Rightarrow> int" where
  "ulpExp x = max (binade x - 52) (- 1074)"

definition roundHalfEven :: "real \<Rightarrow> int" where
  "roundHalfEven q =
     (let f = \<lfloor>q\<rfloor>; d = q - of_int f
      in if d < 1 / 2 then f else if 1 / 2 < d then f + 1 else if even f then f else f + 1)"

definition roundTo :: "int \<Rightarrow> real \<Rightarrow> real" where
  "roundTo e x = of_int (roundHalfEven (x / 2 powi e)) * 2 powi e"

definition round64 :: "real \<Rightarrow> jsnum" where
  "round64 x =
     (if x = 0 then Fin 0
      else
        let r = roundTo (ulpExp x) x
        in if 2 ^ 1024 \<le> \<bar>r\<bar> then (if 0 < x then PInf else NInf) else Fin r)"

text \<open>The reals that are binary64 values: rounding leaves them as they are.\<close>

definition isDouble :: "real \<Rightarrow> bool" where
  "isDouble x = (round64 x = Fin x)"

text \<open>
  A decimal literal of the source denotes the binary64 value nearest to it. (The whole
  numbers of the source, such as 45, are binary64 values and are written \<open>Fin 45\<close>.)
\<close>

definition literal :: "real \<Rightarrow> jsnum" where
  "literal x = round64 x"

fun isNaN :: "jsnum \<Rightarrow> bool" where
  "isNaN NaN = True"
| "isNaN _ = False"


text \<open>\<^verbatim>\<open>Math.abs\<close>.\<close>

fun jabs :: "jsnum \<Rightarrow> jsnum" where
  "jabs NaN = NaN"
| "jabs PInf = PInf"
| "jabs NInf = PInf"
| "jabs (Fin x) = Fin \<bar>x\<bar>"

text \<open>Unary minus.\<close>

fun jneg :: "jsnum \<Rightarrow> jsnum" where
  "jneg NaN = NaN"
| "jneg PInf = NInf"
| "jneg NInf = PInf"
| "jneg (Fin x) = Fin (- x)"

text \<open>The binary operator \<^verbatim>\<open>-\<close> on numbers.\<close>

fun jsub :: "jsnum \<Rightarrow> jsnum \<Rightarrow> jsnum" where
  "jsub NaN _ = NaN"
| "jsub _ NaN = NaN"
| "jsub (Fin x) (Fin y) = round64 (x - y)"
| "jsub PInf PInf = NaN"
| "jsub NInf NInf = NaN"
| "jsub PInf _ = PInf"
| "jsub NInf _ = NInf"
| "jsub (Fin _) PInf = NInf"
| "jsub (Fin _) NInf = PInf"

text \<open>The binary operator \<^verbatim>\<open>*\<close> on numbers.\<close>

fun jmul :: "jsnum \<Rightarrow> jsnum \<Rightarrow> jsnum" where
  "jmul NaN _ = NaN"
| "jmul _ NaN = NaN"
| "jmul (Fin x) (Fin y) = round64 (x * y)"
| "jmul PInf PInf = PInf"
| "jmul NInf NInf = PInf"
| "jmul PInf NInf = NInf"
| "jmul NInf PInf = NInf"
| "jmul (Fin x) i = (if x = 0 then NaN else if 0 < x then i else jneg i)"
| "jmul i (Fin y) = (if y = 0 then NaN else if 0 < y then i else jneg i)"

text \<open>The comparison \<^verbatim>\<open><=\<close>; \<^verbatim>\<open>a >= b\<close> is \<^verbatim>\<open>b <= a\<close>.\<close>

fun jle :: "jsnum \<Rightarrow> jsnum \<Rightarrow> bool" where
  "jle NaN _ = False"
| "jle _ NaN = False"
| "jle (Fin x) (Fin y) = (x \<le> y)"
| "jle NInf _ = True"
| "jle _ PInf = True"
| "jle _ _ = False"

definition jge :: "jsnum \<Rightarrow> jsnum \<Rightarrow> bool" where
  "jge a b = jle b a"

text \<open>The comparison \<^verbatim>\<open><\<close>.\<close>

fun jlt :: "jsnum \<Rightarrow> jsnum \<Rightarrow> bool" where
  "jlt NaN _ = False"
| "jlt _ NaN = False"
| "jlt (Fin x) (Fin y) = (x < y)"
| "jlt PInf _ = False"
| "jlt _ NInf = False"
| "jlt _ _ = True"

text \<open>The binary operator \<^verbatim>\<open>+\<close> on numbers.\<close>

fun jadd :: "jsnum \<Rightarrow> jsnum \<Rightarrow> jsnum" where
  "jadd NaN _ = NaN"
| "jadd _ NaN = NaN"
| "jadd (Fin x) (Fin y) = round64 (x + y)"
| "jadd PInf NInf = NaN"
| "jadd NInf PInf = NaN"
| "jadd PInf _ = PInf"
| "jadd NInf _ = NInf"
| "jadd (Fin _) PInf = PInf"
| "jadd (Fin _) NInf = NInf"

text \<open>\<^verbatim>\<open>Math.max\<close> of two numbers: NaN when either is.\<close>

fun jmax :: "jsnum \<Rightarrow> jsnum \<Rightarrow> jsnum" where
  "jmax NaN _ = NaN"
| "jmax _ NaN = NaN"
| "jmax a b = (if jle a b then b else a)"

text \<open>\<^verbatim>\<open>Number(v)\<close> for \<^verbatim>\<open>v: number | undefined\<close>: \<^verbatim>\<open>Number(undefined)\<close> is NaN.\<close>

fun Number :: "jsnum option \<Rightarrow> jsnum" where
  "Number None = NaN"
| "Number (Some x) = x"

section \<open>Constraints and their evaluation\<close>

datatype ConstraintType = Dmax | Dmean | Vx

text \<open>
  The interface \<^verbatim>\<open>Constraint\<close>; the fields carry the prefix \<open>c_\<close>
  (\<^verbatim>\<open>id\<close>, \<^verbatim>\<open>type\<close> and \<^verbatim>\<open>note\<close> are taken in Isabelle). An optional
  field that is \<^verbatim>\<open>undefined\<close> is \<open>None\<close>.
\<close>

record Constraint =
  c_id :: string
  c_site :: string
  c_oar :: string
  c_type :: ConstraintType
  c_param :: "jsnum option"
  c_limit :: jsnum
  c_unit :: string
  c_note :: "string option"

datatype EvalStatus = Pass | Caution | Fail | Missing

record EvalResult =
  status :: EvalStatus
  delta :: "jsnum option"

text \<open>
  \<^verbatim>\<open>evaluateConstraint(measured, c, cautionPct = 0.05)\<close>. The measured value is
  \<open>None\<close> when it is \<^verbatim>\<open>undefined\<close> (\<^verbatim>\<open>measured == null\<close>); the third argument is
  \<open>None\<close> when the caller leaves it out, and the default applies.
\<close>

definition evaluateConstraint :: "jsnum option \<Rightarrow> Constraint \<Rightarrow> jsnum option \<Rightarrow> EvalResult" where
  "evaluateConstraint measured c cautionPctArg =
     (let cautionPct = (case cautionPctArg of None \<Rightarrow> literal 0.05 | Some p \<Rightarrow> p) in
      case measured of
        None \<Rightarrow> \<lparr>status = Missing, delta = None\<rparr>
      | Some m \<Rightarrow>
          if isNaN m then \<lparr>status = Missing, delta = None\<rparr>
          else
            let limit = c_limit c;
                d = jsub limit m
            in if jle m limit then
                 (let band = jmul (jabs limit) cautionPct
                  in if jge m (jsub limit band) then \<lparr>status = Caution, delta = Some d\<rparr>
                     else \<lparr>status = Pass, delta = Some d\<rparr>)
               else \<lparr>status = Fail, delta = Some d\<rparr>)"

section \<open>The application state and its handlers\<close>

text \<open>
  \<^verbatim>\<open>starterConstraints\<close> is a constant of the module: its five ids are the results of
  the five calls of \<^verbatim>\<open>crypto.randomUUID()\<close> made once, when the module is loaded. They
  are the parameter \<open>uuid\<close> (\<open>uuid k\<close> is the result of call number \<open>k\<close>).
\<close>

definition starterConstraints :: "(nat \<Rightarrow> string) \<Rightarrow> Constraint list" where
  "starterConstraints uuid =
     [\<lparr>c_id = uuid 0, c_site = ''Head & Neck'', c_oar = ''Spinal cord'', c_type = Dmax,
       c_param = None, c_limit = Fin 45, c_unit = ''Gy'', c_note = Some ''Example only''\<rparr>,
      \<lparr>c_id = uuid 1, c_site = ''Head & Neck'', c_oar = ''Brainstem'', c_type = Dmax,
       c_param = None, c_limit = Fin 54, c_unit = ''Gy'', c_note = Some ''Example only''\<rparr>,
      \<lparr>c_id = uuid 2, c_site = ''Head & Neck'', c_oar = ''Parotid (mean)'', c_type = Dmean,
       c_param = None, c_limit = Fin 26, c_unit = ''Gy'', c_note = Some ''Example only''\<rparr>,
      \<lparr>c_id = uuid 3, c_site = ''Thorax'', c_oar = ''Lung (combined)'', c_type = Vx,
       c_param = Some (Fin 20), c_limit = Fin 35, c_unit = ''%'',
       c_note = Some ''Example only (V20)''\<rparr>,
      \<lparr>c_id = uuid 4, c_site = ''Thorax'', c_oar = ''Heart (mean)'', c_type = Dmean,
       c_param = None, c_limit = Fin 26, c_unit = ''Gy'', c_note = Some ''Example only''\<rparr>]"

text \<open>
  \<^verbatim>\<open>Partial<Constraint>\<close>, the type of the draft \<^verbatim>\<open>newC\<close>: every field may be
  \<^verbatim>\<open>undefined\<close>. The fields carry the prefix \<open>p_\<close>.
\<close>

record PartialConstraint =
  p_id :: "string option"
  p_site :: "string option"
  p_oar :: "string option"
  p_type :: "ConstraintType option"
  p_param :: "jsnum option"
  p_limit :: "jsnum option"
  p_unit :: "string option"
  p_note :: "string option"

text \<open>
  The state of the component \<^verbatim>\<open>App\<close>. \<^verbatim>\<open>measurements\<close> is a
  \<^verbatim>\<open>Record<string, number | undefined>\<close>: a key may be there and hold
  \<^verbatim>\<open>undefined\<close>.
\<close>

record App =
  constraints :: "Constraint list"
  measurements :: "string \<rightharpoonup> jsnum option"
  siteFilter :: string
  tightBand :: bool
  newC :: PartialConstraint

definition initApp :: "(nat \<Rightarrow> string) \<Rightarrow> App" where
  "initApp uuid =
     \<lparr>constraints = starterConstraints uuid,
      measurements = Map.empty,
      siteFilter = ''All'',
      tightBand = False,
      newC = \<lparr>p_id = None, p_site = Some ''Other'', p_oar = None, p_type = Some Dmax,
              p_param = None, p_limit = None, p_unit = Some ''Gy'', p_note = None\<rparr>\<rparr>"

text \<open>
  The read \<^verbatim>\<open>measurements[id]\<close>: \<^verbatim>\<open>undefined\<close> for a key that is not there. Only
  the object's own properties are modelled, not what it inherits from
  \<^verbatim>\<open>Object.prototype\<close> (the ids are UUIDs).
\<close>

definition getMeasurement :: "(string \<rightharpoonup> jsnum option) \<Rightarrow> string \<Rightarrow> jsnum option" where
  "getMeasurement m k = (case m k of None \<Rightarrow> None | Some v \<Rightarrow> v)"

definition cautionPct :: "App \<Rightarrow> jsnum" where
  "cautionPct st = (if tightBand st then literal 0.02 else literal 0.05)"

text \<open>The filter of \<^verbatim>\<open>filtered\<close>, for a constraint list and a site filter.\<close>

definition filterBySite :: "Constraint list \<Rightarrow> string \<Rightarrow> Constraint list" where
  "filterBySite cs sf = filter (\<lambda>c. if sf = ''All'' then True else c_site c = sf) cs"

definition filtered :: "App \<Rightarrow> Constraint list" where
  "filtered st = filterBySite (constraints st) (siteFilter st)"

record Summary =
  pass :: nat
  caution :: nat
  fail :: nat
  missing :: nat

text \<open>The loop of \<^verbatim>\<open>summary\<close> over the filtered list, with its four counters.\<close>

fun summary_loop ::
  "(string \<rightharpoonup> jsnum option) \<Rightarrow> jsnum \<Rightarrow> Constraint list \<Rightarrow> Summary \<Rightarrow> Summary" where
  "summary_loop ms pct [] acc = acc"
| "summary_loop ms pct (c # cs) acc =
     (let res = evaluateConstraint (getMeasurement ms (c_id c)) c (Some pct)
      in summary_loop ms pct cs
           (if status res = Pass then acc\<lparr>pass := pass acc + 1\<rparr>
            else if status res = Caution then acc\<lparr>caution := caution acc + 1\<rparr>
            else if status res = Fail then acc\<lparr>fail := fail acc + 1\<rparr>
            else acc\<lparr>missing := missing acc + 1\<rparr>))"

text \<open>
  The body of \<^verbatim>\<open>summary\<close> as a function of its three dependencies, the filtered
  list, the measurements and the caution fraction; then \<^verbatim>\<open>summary\<close> itself.
\<close>

definition summarize ::
  "Constraint list \<Rightarrow> (string \<rightharpoonup> jsnum option) \<Rightarrow> jsnum \<Rightarrow> Summary" where
  "summarize fl ms pct = summary_loop ms pct fl \<lparr>pass = 0, caution = 0, fail = 0, missing = 0\<rparr>"

definition summary :: "App \<Rightarrow> Summary" where
  "summary st = summarize (filtered st) (measurements st) (cautionPct st)"

text \<open>\<^verbatim>\<open>!s\<close> for \<^verbatim>\<open>s: string | undefined\<close>: true for \<^verbatim>\<open>undefined\<close> and for the empty string.\<close>

fun falsy :: "string option \<Rightarrow> bool" where
  "falsy None = True"
| "falsy (Some s) = (s = [])"

text \<open>
  \<^verbatim>\<open>addConstraint\<close>; \<open>newId\<close> is the result of its call of \<^verbatim>\<open>crypto.randomUUID()\<close>.
  \<open>the\<close> stands for the non-null assertions behind the guard.
\<close>

definition addConstraint :: "string \<Rightarrow> App \<Rightarrow> App" where
  "addConstraint newId st =
     (let d = newC st in
      if falsy (p_site d) \<or> falsy (p_oar d) \<or> p_type d = None \<or> p_limit d = None \<or> falsy (p_unit d)
      then st
      else
        let c = \<lparr>c_id = newId,
                 c_site = the (p_site d),
                 c_oar = the (p_oar d),
                 c_type = the (p_type d),
                 c_param = (if p_type d = Some Vx then Some (Number (p_param d)) else None),
                 c_limit = Number (p_limit d),
                 c_unit = the (p_unit d),
                 c_note = p_note d\<rparr>
        in st\<lparr>constraints := constraints st @ [c],
               newC := \<lparr>p_id = None, p_site = p_site d, p_oar = None, p_type = p_type d,
                        p_param = None, p_limit = None, p_unit = p_unit d, p_note = None\<rparr>\<rparr>)"

definition removeConstraint :: "string \<Rightarrow> App \<Rightarrow> App" where
  "removeConstraint i st =
     st\<lparr>constraints := filter (\<lambda>c. c_id c \<noteq> i) (constraints st),
        measurements := (measurements st)(i := None)\<rparr>"

text \<open>The handler of the Reset button: \<^verbatim>\<open>() => setConstraints(starterConstraints)\<close>.\<close>

definition resetToDefaults :: "(nat \<Rightarrow> string) \<Rightarrow> App \<Rightarrow> App" where
  "resetToDefaults uuid st = st\<lparr>constraints := starterConstraints uuid\<rparr>"

text \<open>
  The handler of a row's input: \<open>v\<close> is
  \<^verbatim>\<open>e.target.value === "" ? undefined : Number(e.target.value)\<close>.
\<close>

definition setMeasurement :: "string \<Rightarrow> jsnum option \<Rightarrow> App \<Rightarrow> App" where
  "setMeasurement i v st = st\<lparr>measurements := (measurements st)(i \<mapsto> v)\<rparr>"

text \<open>
  \<^verbatim>\<open>loadDemo\<close>: the value it gives the constraint at index \<open>i\<close> of the first six
  filtered ones (none at index 5), the loop that fills \<^verbatim>\<open>map\<close>, and the merge
  \<^verbatim>\<open>{ ...m, ...map }\<close>.
\<close>

definition demoValue :: "nat \<Rightarrow> jsnum \<Rightarrow> jsnum option" where
  "demoValue i l =
     (if i = 0 then Some (jsub l (jmul l (literal 0.03)))
      else if i = 1 then Some (jsub l (jmul l (literal 0.2)))
      else if i = 2 then Some (jadd l (jmul l (literal 0.1)))
      else if i = 3 then Some l
      else if i = 4 then Some (jmax (Fin 0) (jsub l (literal 0.5)))
      else None)"

fun loadDemo_loop :: "nat \<Rightarrow> Constraint list \<Rightarrow> (string \<rightharpoonup> jsnum) \<Rightarrow> (string \<rightharpoonup> jsnum)" where
  "loadDemo_loop i [] mp = mp"
| "loadDemo_loop i (c # cs) mp =
     loadDemo_loop (i + 1) cs
       (case demoValue i (c_limit c) of None \<Rightarrow> mp | Some v \<Rightarrow> mp(c_id c \<mapsto> v))"

definition loadDemo :: "App \<Rightarrow> App" where
  "loadDemo st =
     (let mp = loadDemo_loop 0 (take 6 (filtered st)) Map.empty
      in st\<lparr>measurements :=
               (\<lambda>k. case mp k of Some v \<Rightarrow> Some (Some v) | None \<Rightarrow> measurements st k)\<rparr>)"

text \<open>
  What the user can do, one event per handler. \<open>Add\<close> carries the id that
  \<^verbatim>\<open>crypto.randomUUID()\<close> returns in \<^verbatim>\<open>addConstraint\<close>; \<open>EditParam\<close> and
  \<open>EditLimit\<close> carry \<^verbatim>\<open>Number(e.target.value)\<close>.
\<close>

datatype Event =
    Add string
  | Remove string
  | Reset
  | SetMeasurement string "jsnum option"
  | LoadDemo
  | SetSiteFilter string
  | SetTightBand bool
  | EditSite string
  | EditOar string
  | EditType ConstraintType
  | EditParam jsnum
  | EditLimit jsnum
  | EditUnit string
  | EditNote string

fun step :: "(nat \<Rightarrow> string) \<Rightarrow> Event \<Rightarrow> App \<Rightarrow> App" where
  "step uuid (Add newId) st = addConstraint newId st"
| "step uuid (Remove i) st = removeConstraint i st"
| "step uuid Reset st = resetToDefaults uuid st"
| "step uuid (SetMeasurement i v) st = setMeasurement i v st"
| "step uuid LoadDemo st = loadDemo st"
| "step uuid (SetSiteFilter s) st = st\<lparr>siteFilter := s\<rparr>"
| "step uuid (SetTightBand b) st = st\<lparr>tightBand := b\<rparr>"
| "step uuid (EditSite s) st = st\<lparr>newC := (newC st)\<lparr>p_site := Some s\<rparr>\<rparr>"
| "step uuid (EditOar s) st = st\<lparr>newC := (newC st)\<lparr>p_oar := Some s\<rparr>\<rparr>"
| "step uuid (EditType t) st = st\<lparr>newC := (newC st)\<lparr>p_type := Some t\<rparr>\<rparr>"
| "step uuid (EditParam x) st = st\<lparr>newC := (newC st)\<lparr>p_param := Some x\<rparr>\<rparr>"
| "step uuid (EditLimit x) st = st\<lparr>newC := (newC st)\<lparr>p_limit := Some x\<rparr>\<rparr>"
| "step uuid (EditUnit s) st = st\<lparr>newC := (newC st)\<lparr>p_unit := Some s\<rparr>\<rparr>"
| "step uuid (EditNote s) st = st\<lparr>newC := (newC st)\<lparr>p_note := Some s\<rparr>\<rparr>"

text \<open>The state after a sequence of events, from the state the component starts in.\<close>

definition run :: "(nat \<Rightarrow> string) \<Rightarrow> Event list \<Rightarrow> App" where
  "run uuid es = fold (step uuid) es (initApp uuid)"

section \<open>The structured export\<close>














section \<open>Sample inputs\<close>

text \<open>Ids for the five seed constraints, and inputs used in the examples below.\<close>

definition uuid0 :: "nat \<Rightarrow> string" where
  "uuid0 k = ''seed-'' @ replicate k CHR ''i''"

definition spinalCord :: Constraint where
  "spinalCord = hd (starterConstraints uuid0)"

text \<open>
  The user picks the type Vx, fills in the organ, the limit and the unit, leaves the
  parameter empty and presses Add.
\<close>

definition vxDraftEvents :: "Event list" where
  "vxDraftEvents =
     [EditOar ''Lung'', EditType Vx, EditLimit (Fin 35), EditUnit ''%'', Add ''new'']"

text \<open>A measurement for the lung constraint, then the site filter set to Thorax.\<close>

definition thoraxState :: App where
  "thoraxState = run uuid0 [SetMeasurement (uuid0 3) (Some (Fin 10)), SetSiteFilter ''Thorax'']"


section \<open>Rounding to binary64\<close>

text \<open>Powers of two and the exponent \<open>binade\<close>.\<close>

lemma powr_powi: "(2::real) powr (real_of_int k) = 2 powi k"
  by (simp add: powr_real_of_int')

lemma powr_powi1: "(2::real) powr (real_of_int k + 1) = 2 powi (k + 1)"
  using powr_powi [of "k + 1"] by simp

lemma binade_bounds:
  assumes "x \<noteq> 0"
  shows "2 powi (binade x) \<le> \<bar>x\<bar>" and "\<bar>x\<bar> < 2 powi (binade x + 1)"
proof -
  have pos: "0 < \<bar>x\<bar>" using assms by simp
  have "\<lfloor>log 2 \<bar>x\<bar>\<rfloor> = binade x" by (simp add: binade_def)
  then have "2 powr (binade x) \<le> \<bar>x\<bar> \<and> \<bar>x\<bar> < 2 powr (binade x + 1)"
    using floor_log_eq_powr_iff [OF pos, of 2 "binade x"] by simp
  then show "2 powi (binade x) \<le> \<bar>x\<bar>" and "\<bar>x\<bar> < 2 powi (binade x + 1)"
    by (simp_all add: powr_powi powr_powi1)
qed

lemma binade_unique:
  assumes "2 powi k \<le> \<bar>x\<bar>" and "\<bar>x\<bar> < 2 powi (k + 1)"
  shows "binade x = k"
proof -
  have "(0::real) < 2 powi k" by simp
  then have pos: "0 < \<bar>x\<bar>"
    using assms(1) by linarith
  have "2 powr k \<le> \<bar>x\<bar> \<and> \<bar>x\<bar> < 2 powr (k + 1)"
    using assms by (simp add: powr_powi powr_powi1)
  then show ?thesis
    unfolding binade_def using floor_log_eq_powr_iff [OF pos, of 2 k] by simp
qed

lemma roundHalfEven_of_int [simp]: "roundHalfEven (of_int n) = n"
  by (simp add: roundHalfEven_def)

lemma roundHalfEven_bounds: "\<lfloor>q\<rfloor> \<le> roundHalfEven q" "roundHalfEven q \<le> \<lfloor>q\<rfloor> + 1"
  by (simp_all add: roundHalfEven_def Let_def)

lemma roundHalfEven_mono:
  assumes "x \<le> y"
  shows "roundHalfEven x \<le> roundHalfEven y"
proof (cases "\<lfloor>x\<rfloor> = \<lfloor>y\<rfloor>")
  case True
  have "x - of_int \<lfloor>x\<rfloor> \<le> y - of_int \<lfloor>y\<rfloor>"
    using assms True by simp
  then show ?thesis
    using True by (auto simp add: roundHalfEven_def Let_def)
next
  case False
  have "\<lfloor>x\<rfloor> \<le> \<lfloor>y\<rfloor>"
    using assms by (rule floor_mono)
  then have "\<lfloor>x\<rfloor> + 1 \<le> \<lfloor>y\<rfloor>"
    using False by simp
  then show ?thesis
    using roundHalfEven_bounds(2) [of x] roundHalfEven_bounds(1) [of y] by linarith
qed

lemma roundHalfEven_minus: "roundHalfEven (- x) = - roundHalfEven x"
proof (cases "x = of_int \<lfloor>x\<rfloor>")
  case True
  then obtain n where n: "x = of_int n" ..
  have "roundHalfEven (of_int (- n)) = - n"
    by (rule roundHalfEven_of_int)
  then show ?thesis
    by (simp add: n)
next
  case False
  then have fl: "\<lfloor>- x\<rfloor> = - \<lfloor>x\<rfloor> - 1"
    by (simp add: floor_minus ceiling_altdef)
  have d: "0 < x - of_int \<lfloor>x\<rfloor>"
    using False by (smt (verit) of_int_floor_le)
  show ?thesis
    using d by (auto simp add: roundHalfEven_def Let_def fl)
qed

lemma roundHalfEven_ge: "of_int n \<le> q \<Longrightarrow> n \<le> roundHalfEven q"
  using roundHalfEven_mono [of "of_int n" q] by simp

lemma roundHalfEven_le: "q \<le> of_int n \<Longrightarrow> roundHalfEven q \<le> n"
  using roundHalfEven_mono [of q "of_int n"] by simp

lemma roundTo_mono: "x \<le> y \<Longrightarrow> roundTo e x \<le> roundTo e y"
  unfolding roundTo_def
  by (intro mult_right_mono) (simp_all add: roundHalfEven_mono divide_right_mono)

lemma roundTo_minus: "roundTo e (- x) = - roundTo e x"
  by (simp add: roundTo_def roundHalfEven_minus)

lemma roundTo_nonneg: "0 \<le> x \<Longrightarrow> 0 \<le> roundTo e x"
  unfolding roundTo_def
  by (intro mult_nonneg_nonneg) (simp_all add: roundHalfEven_ge)

text \<open>A power of two on the grid or above it bounds the rounded value as it bounds the value.\<close>

lemma pow2_grid: "e \<le> j \<Longrightarrow> (2::real) powi j / 2 powi e = of_int (2 ^ nat (j - e))"
proof -
  assume "e \<le> j"
  have "(2::real) powi j / 2 powi e = 2 powi (j - e)"
    by (simp add: power_int_diff)
  also have "\<dots> = 2 ^ nat (j - e)"
    using \<open>e \<le> j\<close> by (simp add: power_int_nonneg_exp)
  finally show ?thesis by simp
qed

lemma roundTo_le_pow2:
  assumes "e \<le> j" and "x \<le> 2 powi j"
  shows "roundTo e x \<le> 2 powi j"
proof -
  have "x / 2 powi e \<le> 2 powi j / 2 powi e"
    using assms(2) by (simp add: divide_right_mono)
  then have "x / 2 powi e \<le> of_int (2 ^ nat (j - e))"
    by (simp only: pow2_grid [OF assms(1)])
  then have "roundHalfEven (x / 2 powi e) \<le> 2 ^ nat (j - e)"
    by (rule roundHalfEven_le)
  then have "of_int (roundHalfEven (x / 2 powi e)) \<le> (of_int (2 ^ nat (j - e)) :: real)"
    by (simp only: of_int_le_iff)
  then have "of_int (roundHalfEven (x / 2 powi e)) \<le> (2::real) powi j / 2 powi e"
    by (simp only: pow2_grid [OF assms(1)])
  then have "of_int (roundHalfEven (x / 2 powi e)) * 2 powi e \<le> ((2::real) powi j / 2 powi e) * 2 powi e"
    by (intro mult_right_mono) simp_all
  then show ?thesis
    by (simp add: roundTo_def)
qed

lemma roundTo_ge_pow2:
  assumes "e \<le> j" and "2 powi j \<le> x"
  shows "2 powi j \<le> roundTo e x"
proof -
  have "2 powi j / 2 powi e \<le> x / 2 powi e"
    using assms(2) by (simp add: divide_right_mono)
  then have "of_int (2 ^ nat (j - e)) \<le> x / 2 powi e"
    by (simp only: pow2_grid [OF assms(1)])
  then have "2 ^ nat (j - e) \<le> roundHalfEven (x / 2 powi e)"
    by (rule roundHalfEven_ge)
  then have "(of_int (2 ^ nat (j - e)) :: real) \<le> of_int (roundHalfEven (x / 2 powi e))"
    by (simp only: of_int_le_iff)
  then have "(2::real) powi j / 2 powi e \<le> of_int (roundHalfEven (x / 2 powi e))"
    by (simp only: pow2_grid [OF assms(1)])
  then have "((2::real) powi j / 2 powi e) * 2 powi e \<le> of_int (roundHalfEven (x / 2 powi e)) * 2 powi e"
    by (intro mult_right_mono) simp_all
  then show ?thesis
    by (simp add: roundTo_def)
qed


lemma binade_mono:
  assumes "0 < x" and "x \<le> y"
  shows "binade x \<le> binade y"
proof (rule ccontr)
  assume "\<not> binade x \<le> binade y"
  then have "binade y + 1 \<le> binade x" by simp
  then have "(2::real) powi (binade y + 1) \<le> 2 powi (binade x)"
    by (intro power_int_increasing) simp_all
  moreover have "\<bar>y\<bar> < 2 powi (binade y + 1)"
    using assms by (intro binade_bounds) simp
  moreover have "2 powi (binade x) \<le> \<bar>x\<bar>"
    using assms by (intro binade_bounds) simp
  ultimately show False
    using assms by simp
qed

lemma round_pos_mono:
  assumes "0 < x" and "x \<le> y"
  shows "roundTo (ulpExp x) x \<le> roundTo (ulpExp y) y"
proof (cases "ulpExp x = ulpExp y")
  case True
  then show ?thesis
    using assms(2) by (simp add: roundTo_mono)
next
  case False
  have bm: "binade x \<le> binade y"
    using assms by (rule binade_mono)
  then have lt: "ulpExp x < ulpExp y"
    using False unfolding ulpExp_def by linarith
  then have ey_eq: "ulpExp y = binade y - 52" and bx: "binade x < binade y"
    unfolding ulpExp_def by linarith+
  have ex: "ulpExp x \<le> binade y" and ey: "ulpExp y \<le> binade y"
    using lt ey_eq by simp_all
  have "\<bar>x\<bar> < 2 powi (binade x + 1)"
    using assms(1) by (intro binade_bounds) simp
  moreover have "(2::real) powi (binade x + 1) \<le> 2 powi (binade y)"
    using bx by (intro power_int_increasing) simp_all
  ultimately have x_le: "x \<le> 2 powi (binade y)"
    by simp
  have "2 powi (binade y) \<le> \<bar>y\<bar>"
    using assms by (intro binade_bounds) simp
  then have y_ge: "2 powi (binade y) \<le> y"
    using assms by simp
  have "roundTo (ulpExp x) x \<le> 2 powi (binade y)"
    using ex x_le by (rule roundTo_le_pow2)
  also have "\<dots> \<le> roundTo (ulpExp y) y"
    using ey y_ge by (rule roundTo_ge_pow2)
  finally show ?thesis .
qed

lemma round64_eval:
  assumes "2 powi k \<le> \<bar>x\<bar>" and "\<bar>x\<bar> < 2 powi (k + 1)"
  shows "round64 x =
     (let r = roundTo (max (k - 52) (- 1074)) x
      in if 2 ^ 1024 \<le> \<bar>r\<bar> then (if 0 < x then PInf else NInf) else Fin r)"
proof -
  have "binade x = k"
    using assms by (rule binade_unique)
  moreover have "x \<noteq> 0"
    using assms(1) by (smt (verit) zero_less_power_int)
  ultimately show ?thesis
    by (simp add: round64_def ulpExp_def)
qed


lemma ulpExp_minus: "ulpExp (- x) = ulpExp x"
  by (simp add: ulpExp_def binade_def)

lemma round64_minus: "round64 (- x) = jneg (round64 x)"
  by (simp add: round64_def ulpExp_minus roundTo_minus Let_def)

lemma round64_pos:
  assumes "0 < x"
  shows "round64 x = PInf \<or> (\<exists>r. round64 x = Fin r \<and> 0 \<le> r)"
proof -
  have "0 \<le> roundTo (ulpExp x) x"
    using assms by (intro roundTo_nonneg) simp
  then show ?thesis
    using assms by (simp add: round64_def Let_def)
qed

lemma round64_nonneg:
  assumes "0 \<le> x"
  shows "round64 x = PInf \<or> (\<exists>r. round64 x = Fin r \<and> 0 \<le> r)"
proof (cases "x = 0")
  case True
  then show ?thesis by (simp add: round64_def)
next
  case False
  then show ?thesis using assms round64_pos [of x] by simp
qed

lemma round64_pos_mono:
  assumes "0 < x" and "x \<le> y"
  shows "jle (round64 x) (round64 y)"
proof -
  have le: "roundTo (ulpExp x) x \<le> roundTo (ulpExp y) y"
    using assms by (rule round_pos_mono)
  have nx: "0 \<le> roundTo (ulpExp x) x" and ny: "0 \<le> roundTo (ulpExp y) y"
    using assms by (simp_all add: roundTo_nonneg)
  show ?thesis
    using assms le nx ny by (simp add: round64_def Let_def)
qed

lemma jle_jneg: "jle (jneg a) (jneg b) = jle b a"
  by (cases a; cases b) simp_all

lemma round64_mono:
  assumes "x \<le> y"
  shows "jle (round64 x) (round64 y)"
proof -
  consider "0 < x" | "x \<le> 0" "0 \<le> y" | "y < 0"
    using assms by linarith
  then show ?thesis
  proof cases
    case 1
    then show ?thesis using assms by (rule round64_pos_mono)
  next
    case 2
    have "round64 (- x) = PInf \<or> (\<exists>r. round64 (- x) = Fin r \<and> 0 \<le> r)"
      using 2(1) by (intro round64_nonneg) simp
    then have "round64 x = NInf \<or> (\<exists>r. round64 x = Fin r \<and> r \<le> 0)"
      unfolding round64_minus by (cases "round64 x") auto
    moreover have "round64 y = PInf \<or> (\<exists>r. round64 y = Fin r \<and> 0 \<le> r)"
      using 2(2) by (rule round64_nonneg)
    ultimately show ?thesis by auto
  next
    case 3
    then have "jle (round64 (- y)) (round64 (- x))"
      using assms by (intro round64_pos_mono) simp_all
    then show ?thesis
      by (simp add: round64_minus jle_jneg)
  qed
qed

lemma round64_le_double:
  assumes "isDouble l" and "x \<le> l"
  shows "jle (round64 x) (Fin l)"
  using round64_mono [OF assms(2)] assms(1) by (simp add: isDouble_def)

lemma binade_less:
  assumes "x \<noteq> 0" and "\<bar>x\<bar> < 2 powi j"
  shows "binade x < j"
proof (rule ccontr)
  assume "\<not> binade x < j"
  then have "(2::real) powi j \<le> 2 powi (binade x)"
    by (intro power_int_increasing) simp_all
  moreover have "2 powi (binade x) \<le> \<bar>x\<bar>"
    using assms(1) by (rule binade_bounds)
  ultimately show False
    using assms(2) by simp
qed

lemma roundTo_grid:
  assumes "e' \<le> e"
  shows "roundTo e' (of_int m * 2 powi e) = of_int m * 2 powi e"
proof -
  have g: "(2::real) powi e / 2 powi e' = of_int (2 ^ nat (e - e'))"
    using assms by (rule pow2_grid)
  have "of_int m * 2 powi e / 2 powi e' = of_int m * ((2::real) powi e / 2 powi e')"
    by simp
  also have "\<dots> = of_int (m * 2 ^ nat (e - e'))"
    by (simp only: g of_int_mult)
  finally have q: "of_int m * 2 powi e / 2 powi e' = (of_int (m * 2 ^ nat (e - e')) :: real)" .
  have "roundTo e' (of_int m * 2 powi e) = of_int (m * 2 ^ nat (e - e')) * 2 powi e'"
    by (simp only: roundTo_def q roundHalfEven_of_int)
  also have "\<dots> = of_int m * ((2::real) powi e / 2 powi e') * 2 powi e'"
    by (simp only: g of_int_mult)
  also have "\<dots> = of_int m * 2 powi e"
    by simp
  finally show ?thesis .
qed

text \<open>Every \<open>m * 2 ^ e\<close> with a significand below \<open>2 ^ 53\<close> and an exponent in range is a binary64 value.\<close>

lemma abs_significand:
  assumes "\<bar>m\<bar> < 2 ^ 53"
  shows "\<bar>of_int m :: real\<bar> \<le> 2 ^ 53 - 1"
proof -
  have "\<bar>m\<bar> \<le> 2 ^ 53 - 1"
    using assms by simp
  then have "(of_int \<bar>m\<bar> :: real) \<le> of_int (2 ^ 53 - 1)"
    by (simp only: of_int_le_iff)
  then show ?thesis
    by simp
qed

lemma isDouble_dyadic:
  assumes "\<bar>m\<bar> < 2 ^ 53" and "- 1074 \<le> e" and "e \<le> 971"
  shows "isDouble (of_int m * 2 powi e)"
proof (cases "m = 0")
  case True
  then show ?thesis by (simp add: isDouble_def round64_def)
next
  case False
  define x :: real where "x = of_int m * 2 powi e"
  have x0: "x \<noteq> 0"
    using False by (simp add: x_def)
  have "\<bar>x\<bar> = \<bar>of_int m :: real\<bar> * 2 powi e"
    by (simp add: x_def abs_mult)
  also have "\<dots> \<le> (2 ^ 53 - 1) * 2 powi e"
    using abs_significand [OF assms(1)] by (intro mult_right_mono) simp_all
  finally have absx: "\<bar>x\<bar> \<le> (2 ^ 53 - 1) * 2 powi e" .
  have "(2 ^ 53 - 1) * (2::real) powi e < 2 ^ 53 * 2 powi e"
    by (intro mult_strict_right_mono) simp_all
  also have "\<dots> = 2 powi (e + 53)"
    by (simp add: power_int_add)
  finally have "\<bar>x\<bar> < 2 powi (e + 53)"
    using absx by linarith
  then have "binade x < e + 53"
    using x0 by (intro binade_less)
  then have ue: "ulpExp x \<le> e"
    using assms(2) unfolding ulpExp_def by linarith
  have "roundTo (ulpExp x) (of_int m * 2 powi e) = of_int m * 2 powi e"
    using ue by (rule roundTo_grid)
  then have r: "roundTo (ulpExp x) x = x"
    by (simp only: x_def [symmetric])
  have "(2::real) powi e \<le> 2 powi 971"
    using assms(3) by (intro power_int_increasing) simp_all
  then have "(2 ^ 53 - 1) * (2::real) powi e \<le> (2 ^ 53 - 1) * 2 powi 971"
    by (intro mult_left_mono) simp_all
  also have "\<dots> < 2 ^ 53 * (2::real) powi 971"
    by (intro mult_strict_right_mono) simp_all
  also have "\<dots> = 2 powi 1024"
    by (simp add: power_int_add flip: power_add)
  finally have "\<bar>x\<bar> < 2 ^ 1024"
    using absx by simp
  then show ?thesis
    using x0 r unfolding isDouble_def round64_def Let_def x_def [symmetric] by simp
qed

lemma isDouble_0 [simp]: "isDouble 0"
  by (simp add: isDouble_def round64_def)

lemma round64_int: "\<bar>n\<bar> < 2 ^ 53 \<Longrightarrow> round64 (of_int n) = Fin (of_int n)"
  using isDouble_dyadic [of n 0] by (simp add: isDouble_def)

text \<open>Rules that compute \<open>binade\<close>, and with it \<open>round64\<close>, on numerals.\<close>

lemma binade_unit: "1 \<le> \<bar>x\<bar> \<Longrightarrow> \<bar>x\<bar> < 2 \<Longrightarrow> binade x = 0"
  by (rule binade_unique) simp_all

lemma binade_halve:
  assumes "2 \<le> \<bar>x\<bar>"
  shows "binade x = binade (x / 2) + 1"
proof -
  have x0: "x / 2 \<noteq> 0"
    using assms by auto
  have "2 powi (binade (x / 2)) \<le> \<bar>x / 2\<bar>" and "\<bar>x / 2\<bar> < 2 powi (binade (x / 2) + 1)"
    using x0 by (rule binade_bounds)+
  then have "2 powi (binade (x / 2) + 1) \<le> \<bar>x\<bar>" and "\<bar>x\<bar> < 2 powi (binade (x / 2) + 1 + 1)"
    by (simp_all add: power_int_add)
  then show ?thesis
    by (rule binade_unique)
qed

lemma binade_double:
  assumes "\<bar>x\<bar> < 1" and "x \<noteq> 0"
  shows "binade x = binade (2 * x) - 1"
proof -
  have x0: "2 * x \<noteq> 0"
    using assms by simp
  have "2 powi (binade (2 * x)) \<le> \<bar>2 * x\<bar>" and "\<bar>2 * x\<bar> < 2 powi (binade (2 * x) + 1)"
    using x0 by (rule binade_bounds)+
  then have "2 powi (binade (2 * x) - 1) \<le> \<bar>x\<bar>" and "\<bar>x\<bar> < 2 powi (binade (2 * x) - 1 + 1)"
    by (simp_all add: power_int_diff power_int_add)
  then show ?thesis
    by (rule binade_unique)
qed

lemmas round64_compute =
  round64_def literal_def ulpExp_def roundTo_def roundHalfEven_def Let_def power_int_minus
  binade_unit binade_halve binade_double

lemma round64_not_NaN: "round64 x \<noteq> NaN"
  by (simp add: round64_def Let_def)

lemma jsub_Fin_not_NaN: "b \<noteq> NaN \<Longrightarrow> \<not> isNaN (jsub (Fin l) b)"
  by (cases b) (simp_all add: round64_def Let_def)

lemma abs_roundHalfEven: "\<bar>roundHalfEven q\<bar> = roundHalfEven \<bar>q\<bar>"
proof (cases "0 \<le> q")
  case True
  then have "0 \<le> roundHalfEven q"
    using roundHalfEven_ge [of 0 q] by simp
  then show ?thesis using True by simp
next
  case False
  then have "roundHalfEven q \<le> 0"
    using roundHalfEven_le [of q 0] by simp
  then show ?thesis using False by (simp add: roundHalfEven_minus)
qed

lemma abs_roundTo: "\<bar>roundTo e x\<bar> = of_int (roundHalfEven (\<bar>x\<bar> / 2 powi e)) * 2 powi e"
proof -
  have "\<bar>roundTo e x\<bar> = \<bar>of_int (roundHalfEven (x / 2 powi e)) :: real\<bar> * 2 powi e"
    by (simp add: roundTo_def abs_mult)
  also have "\<bar>of_int (roundHalfEven (x / 2 powi e)) :: real\<bar> = of_int \<bar>roundHalfEven (x / 2 powi e)\<bar>"
    by simp
  also have "\<bar>roundHalfEven (x / 2 powi e)\<bar> = roundHalfEven (\<bar>x\<bar> / 2 powi e)"
    by (simp add: abs_roundHalfEven)
  finally show ?thesis .
qed

text \<open>The result of a rounding, when finite, is a binary64 value.\<close>

lemma round64_isDouble:
  assumes "round64 x = Fin r"
  shows "isDouble r"
proof (cases "x = 0")
  case True
  then show ?thesis using assms by (simp add: round64_def)
next
  case False
  define e where "e = ulpExp x"
  define n where "n = roundHalfEven (x / 2 powi e)"
  have r: "r = of_int n * 2 powi e" and fin: "\<bar>roundTo e x\<bar> < 2 ^ 1024"
    using assms False
    by (simp_all add: round64_def Let_def e_def n_def roundTo_def split: if_splits)
  have e_lo: "- 1074 \<le> e" and e_bin: "binade x - 52 \<le> e"
    by (simp_all add: e_def ulpExp_def)
  have absn: "\<bar>n\<bar> = roundHalfEven (\<bar>x\<bar> / 2 powi e)"
    by (simp add: n_def abs_roundHalfEven)
  have absr: "\<bar>roundTo e x\<bar> = of_int \<bar>n\<bar> * 2 powi e"
    by (simp only: abs_roundTo absn)
  have "\<bar>x\<bar> < 2 powi (binade x + 1)"
    using False by (rule binade_bounds)
  also have "\<dots> \<le> 2 powi (e + 53)"
    using e_bin by (intro power_int_increasing) simp_all
  finally have "\<bar>x\<bar> / 2 powi e \<le> 2 powi (e + 53) / 2 powi e"
    by (intro divide_right_mono) simp_all
  also have "\<dots> = of_int (2 ^ 53)"
    by (simp add: power_int_add)
  finally have n_le: "\<bar>n\<bar> \<le> 2 ^ 53"
    unfolding absn by (rule roundHalfEven_le)
  show ?thesis
  proof (cases "\<bar>n\<bar> = 2 ^ 53")
    case True
    have "of_int \<bar>n\<bar> * (2::real) powi e = 2 powi (e + 53)"
      by (simp add: True power_int_add)
    then have "(2::real) powi (e + 53) < 2 powi 1024"
      using fin absr by simp
    have "e + 53 < 1024"
    proof (rule ccontr)
      assume "\<not> e + 53 < 1024"
      then have "(2::real) powi 1024 \<le> 2 powi (e + 53)"
        by (intro power_int_increasing) simp_all
      then show False
        using \<open>(2::real) powi (e + 53) < 2 powi 1024\<close> by simp
    qed
    then have e1: "e + 1 \<le> 971"
      by simp
    have "n = 2 ^ 53 \<or> n = - (2 ^ 53)"
      using True by linarith
    then have "r = of_int (n div 2) * 2 powi (e + 1)"
      by (auto simp add: r power_int_add)
    moreover have "\<bar>n div 2\<bar> < 2 ^ 53"
      using \<open>n = 2 ^ 53 \<or> n = - (2 ^ 53)\<close> by auto
    then have "isDouble (of_int (n div 2) * 2 powi (e + 1))"
      using e_lo e1 by (intro isDouble_dyadic) simp_all
    ultimately show ?thesis by simp
  next
    case False
    then have n_lt: "\<bar>n\<bar> < 2 ^ 53"
      using n_le by simp
    have "e \<le> 971"
    proof (rule ccontr)
      assume "\<not> e \<le> 971"
      then have big: "972 \<le> e" by simp
      then have "e = binade x - 52"
        unfolding e_def ulpExp_def by linarith
      then have "2 powi (e + 52) \<le> \<bar>x\<bar>"
        using binade_bounds(1) [OF \<open>x \<noteq> 0\<close>] by simp
      then have "2 powi (e + 52) / 2 powi e \<le> \<bar>x\<bar> / 2 powi e"
        by (intro divide_right_mono) simp_all
      moreover have "(2::real) powi (e + 52) / 2 powi e = of_int (2 ^ 52)"
        by (simp add: power_int_add)
      ultimately have "of_int (2 ^ 52) \<le> \<bar>x\<bar> / 2 powi e"
        by simp
      then have "2 ^ 52 \<le> \<bar>n\<bar>"
        unfolding absn by (rule roundHalfEven_ge)
      then have "(of_int (2 ^ 52) :: real) \<le> of_int \<bar>n\<bar>"
        by (simp only: of_int_le_iff)
      then have "of_int (2 ^ 52) * (2::real) powi e \<le> of_int \<bar>n\<bar> * 2 powi e"
        by (intro mult_right_mono) simp_all
      moreover have "(2::real) powi 972 \<le> 2 powi e"
        using big by (intro power_int_increasing) simp_all
      then have "of_int (2 ^ 52) * (2::real) powi 972 \<le> of_int (2 ^ 52) * 2 powi e"
        by (intro mult_left_mono) simp_all
      moreover have "of_int (2 ^ 52) * (2::real) powi 972 = 2 powi 1024"
        by (simp add: power_int_add flip: power_add)
      ultimately have "(2::real) powi 1024 \<le> of_int \<bar>n\<bar> * 2 powi e"
        by linarith
      then show False
        using fin absr by simp
    qed
    then show ?thesis
      unfolding r using n_lt e_lo by (intro isDouble_dyadic)
  qed
qed

text \<open>
  Some values: the literal 0.1; ties going to the even neighbour, at \<open>2 ^ 53\<close> and among
  the subnormal numbers; and the overflow threshold.
\<close>

lemma round64_examples:
  "literal 0.1 = Fin (3602879701896397 / 2 ^ 55)"
  "round64 (2 ^ 53 + 1) = Fin (2 ^ 53)"
  "round64 (2 ^ 53 + 3) = Fin (2 ^ 53 + 4)"
  "round64 (1 / 2 ^ 1075) = Fin 0"
  "round64 (3 / 2 ^ 1075) = Fin (2 / 2 ^ 1074)"
  "round64 (2 ^ 1024 - 2 ^ 970) = PInf"
  "round64 (2 ^ 1024 - 2 ^ 970 - 1) = Fin (2 ^ 1024 - 2 ^ 971)"
proof -
  show "literal 0.1 = Fin (3602879701896397 / 2 ^ 55)"
    by (simp add: round64_compute)
  show "round64 (2 ^ 53 + 1) = Fin (2 ^ 53)"
    using round64_eval [of 53 "2 ^ 53 + 1"]
    by (simp add: roundTo_def roundHalfEven_def Let_def power_int_minus)
  show "round64 (2 ^ 53 + 3) = Fin (2 ^ 53 + 4)"
    using round64_eval [of 53 "2 ^ 53 + 3"]
    by (simp add: roundTo_def roundHalfEven_def Let_def power_int_minus)
  show "round64 (1 / 2 ^ 1075) = Fin 0"
    using round64_eval [of "- 1075" "1 / 2 ^ 1075"]
    by (simp add: roundTo_def roundHalfEven_def Let_def power_int_minus)
  show "round64 (3 / 2 ^ 1075) = Fin (2 / 2 ^ 1074)"
    using round64_eval [of "- 1074" "3 / 2 ^ 1075"]
    by (simp add: roundTo_def roundHalfEven_def Let_def power_int_minus)
  show "round64 (2 ^ 1024 - 2 ^ 970) = PInf"
    using round64_eval [of 1023 "2 ^ 1024 - 2 ^ 970"]
    by (simp add: roundTo_def roundHalfEven_def Let_def power_int_minus)
  show "round64 (2 ^ 1024 - 2 ^ 970 - 1) = Fin (2 ^ 1024 - 2 ^ 971)"
    using round64_eval [of 1023 "2 ^ 1024 - 2 ^ 970 - 1"]
    by (simp add: roundTo_def roundHalfEven_def Let_def power_int_minus)
qed

section \<open>Evaluation of one constraint\<close>

lemma uuid0_simps:
  "uuid0 0 = ''seed-''" "uuid0 (Suc 0) = ''seed-i''" "uuid0 2 = ''seed-ii''"
  "uuid0 3 = ''seed-iii''" "uuid0 4 = ''seed-iiii''"
  by (simp_all add: uuid0_def eval_nat_numeral)

lemma spinalCord_limit: "c_limit spinalCord = Fin 45"
  by (simp add: spinalCord_def starterConstraints_def)

lemma isDouble_45: "isDouble 45"
  using isDouble_dyadic [of 45 0] by simp

text \<open>The lower bound of the caution band, as the code computes it, is never above the limit.\<close>

lemma bound_le_limit:
  assumes "isDouble l" and "jle (Fin 0) pct"
  shows "isNaN (jsub (Fin l) (jmul (jabs (Fin l)) pct))
       \<or> jle (jsub (Fin l) (jmul (jabs (Fin l)) pct)) (Fin l)"
proof (cases pct)
  case NaN
  then show ?thesis using assms(2) by simp
next
  case PInf
  then show ?thesis by simp
next
  case NInf
  then show ?thesis using assms(2) by simp
next
  case (Fin p)
  then have "0 \<le> \<bar>l\<bar> * p"
    using assms(2) by simp
  then have "round64 (\<bar>l\<bar> * p) = PInf \<or> (\<exists>b. round64 (\<bar>l\<bar> * p) = Fin b \<and> 0 \<le> b)"
    by (rule round64_nonneg)
  then show ?thesis
  proof
    assume "round64 (\<bar>l\<bar> * p) = PInf"
    then show ?thesis using Fin by simp
  next
    assume "\<exists>b. round64 (\<bar>l\<bar> * p) = Fin b \<and> 0 \<le> b"
    then obtain b where b: "round64 (\<bar>l\<bar> * p) = Fin b" "0 \<le> b"
      by blast
    have "jle (round64 (l - b)) (Fin l)"
      using assms(1) b(2) by (intro round64_le_double) simp_all
    then show ?thesis using Fin b(1) by simp
  qed
qed

lemma jlt_jle_trans: "jlt (Fin m) b \<Longrightarrow> jle b (Fin l) \<Longrightarrow> m < l"
  by (cases b) simp_all

lemma jlt_not_jle: "jlt (Fin m) b \<Longrightarrow> \<not> jle b (Fin m)"
  by (cases b) simp_all

lemma jlt_not_NaN: "jlt a b \<Longrightarrow> \<not> isNaN b"
  by (cases a; cases b) simp_all

text \<open>
  Claim C1, as amended. Let \<open>band\<close> be \<open>|limit| * cautionFraction\<close> and \<open>bound\<close> be
  \<open>limit - band\<close>, both as the code computes them: in binary64, each result rounded,
  the product an infinity when it overflows. For a constraint with a finite limit,
  a caution fraction that is \<open>\<ge> 0\<close> (\<^verbatim>\<open>Infinity\<close> included) and a finite measured
  value \<open>m\<close>, the status is pass when \<open>m < bound\<close>, caution when
  \<open>bound \<le> m \<le> limit\<close>, and fail when \<open>m > limit\<close>. (With the exact
  \<open>limit - |limit| * cautionFraction\<close> in the place of \<open>bound\<close> the claim fails.)
\<close>

theorem evaluateConstraint_classifies:
  assumes "c_limit c = Fin l" and "isDouble l" and "jle (Fin 0) pct"
  shows "(jlt (Fin m) (jsub (Fin l) (jmul (jabs (Fin l)) pct)) \<longrightarrow>
            status (evaluateConstraint (Some (Fin m)) c (Some pct)) = Pass)
       \<and> (jle (jsub (Fin l) (jmul (jabs (Fin l)) pct)) (Fin m) \<and> m \<le> l \<longrightarrow>
            status (evaluateConstraint (Some (Fin m)) c (Some pct)) = Caution)
       \<and> (l < m \<longrightarrow>
            status (evaluateConstraint (Some (Fin m)) c (Some pct)) = Fail)"
proof (intro conjI impI)
  assume lt: "jlt (Fin m) (jsub (Fin l) (jmul (jabs (Fin l)) pct))"
  then have "jle (jsub (Fin l) (jmul (jabs (Fin l)) pct)) (Fin l)"
    using bound_le_limit [OF assms(2,3)] jlt_not_NaN by blast
  then have "m < l"
    using lt by (intro jlt_jle_trans)
  moreover have "\<not> jle (jsub (Fin l) (jmul (jabs (Fin l)) pct)) (Fin m)"
    using lt by (rule jlt_not_jle)
  ultimately show "status (evaluateConstraint (Some (Fin m)) c (Some pct)) = Pass"
    using assms(1) by (simp add: evaluateConstraint_def jge_def Let_def)
next
  assume "jle (jsub (Fin l) (jmul (jabs (Fin l)) pct)) (Fin m) \<and> m \<le> l"
  then show "status (evaluateConstraint (Some (Fin m)) c (Some pct)) = Caution"
    using assms(1) by (simp add: evaluateConstraint_def jge_def Let_def)
next
  assume "l < m"
  then show "status (evaluateConstraint (Some (Fin m)) c (Some pct)) = Fail"
    using assms(1) by (simp add: evaluateConstraint_def Let_def)
qed

text \<open>
  The three scenarios of the limit 45 Gy with the 5% band (the band is 2.25 and the bound
  42.75): 40, 44.5 and 46; and 40 and 46 with the caution fraction \<^verbatim>\<open>Infinity\<close>.
\<close>

theorem evaluateConstraint_classifies_witness:
  "status (evaluateConstraint (Some (Fin 40)) spinalCord (Some (literal 0.05))) = Pass
   \<and> status (evaluateConstraint (Some (Fin 44.5)) spinalCord (Some (literal 0.05))) = Caution
   \<and> status (evaluateConstraint (Some (Fin 46)) spinalCord (Some (literal 0.05))) = Fail
   \<and> status (evaluateConstraint (Some (Fin 40)) spinalCord (Some PInf)) = Caution
   \<and> status (evaluateConstraint (Some (Fin 46)) spinalCord (Some PInf)) = Fail"
  using evaluateConstraint_classifies [of spinalCord 45 "literal 0.05" 40]
        evaluateConstraint_classifies [of spinalCord 45 "literal 0.05" "44.5"]
        evaluateConstraint_classifies [of spinalCord 45 "literal 0.05" 46]
        evaluateConstraint_classifies [of spinalCord 45 PInf 40]
        evaluateConstraint_classifies [of spinalCord 45 PInf 46]
  by (simp add: spinalCord_limit isDouble_45 round64_compute)

text \<open>
  The claim C1 as stated fails, with the bound taken exactly. For the limit 13.52, the
  measured value 12.844 and the caution fraction 0.05 (each the binary64 value of the
  literal), the measured value is below \<open>limit - |limit| * cautionFraction\<close>, and the
  status is caution: the rounded bound is 12.844. For the limit \<open>2 ^ 1023\<close>, the
  caution fraction 2.5 and the measured value \<open>-1.75 * 2 ^ 1023\<close>, which is below
  \<open>limit - |limit| * cautionFraction\<close>, the band overflows to \<^verbatim>\<open>Infinity\<close> and the
  status is caution.
\<close>

theorem classify_exact_bound_counterexample:
  "literal 13.52 = Fin (3805541685128069 / 2 ^ 48)
   \<and> literal 12.844 = Fin (7230529201743331 / 2 ^ 49)
   \<and> literal 0.05 = Fin (3602879701896397 / 2 ^ 56)
   \<and> (7230529201743331 / 2 ^ 49 :: real)
        < 3805541685128069 / 2 ^ 48 - \<bar>3805541685128069 / 2 ^ 48\<bar> * (3602879701896397 / 2 ^ 56)
   \<and> status (evaluateConstraint (Some (literal 12.844)) (spinalCord\<lparr>c_limit := literal 13.52\<rparr>)
               (Some (literal 0.05))) = Caution
   \<and> isDouble (2 ^ 1023) \<and> isDouble (5 / 2) \<and> isDouble (- (7 / 4) * 2 ^ 1023)
   \<and> (- (7 / 4) * 2 ^ 1023 :: real) < 2 ^ 1023 - \<bar>2 ^ 1023\<bar> * (5 / 2)
   \<and> status (evaluateConstraint (Some (Fin (- (7 / 4) * 2 ^ 1023))) (spinalCord\<lparr>c_limit := Fin (2 ^ 1023)\<rparr>)
               (Some (Fin (5 / 2)))) = Caution"
proof -
  have a: "literal 13.52 = Fin (3805541685128069 / 2 ^ 48)"
    by (simp add: round64_compute)
  have b: "literal 12.844 = Fin (7230529201743331 / 2 ^ 49)"
    by (simp add: round64_compute)
  have c: "literal 0.05 = Fin (3602879701896397 / 2 ^ 56)"
    by (simp add: round64_compute)
  have d: "(7230529201743331 / 2 ^ 49 :: real)
        < 3805541685128069 / 2 ^ 48 - \<bar>3805541685128069 / 2 ^ 48\<bar> * (3602879701896397 / 2 ^ 56)"
    by simp
  have e: "status (evaluateConstraint (Some (literal 12.844)) (spinalCord\<lparr>c_limit := literal 13.52\<rparr>)
               (Some (literal 0.05))) = Caution"
    unfolding a b c by (simp add: evaluateConstraint_def jge_def round64_compute)
  have f: "isDouble (2 ^ 1023)"
    using isDouble_dyadic [of "2 ^ 52" 971] by simp
  have g: "isDouble (5 / 2)"
    using isDouble_dyadic [of 5 "-1"] by (simp add: power_int_minus)
  have h: "isDouble (- (7 / 4) * 2 ^ 1023)"
    using isDouble_dyadic [of "- 7 * 2 ^ 50" 971] by simp
  have i: "(- (7 / 4) * 2 ^ 1023 :: real) < 2 ^ 1023 - \<bar>2 ^ 1023\<bar> * (5 / 2)"
    by simp
  have band: "round64 (\<bar>2 ^ 1023\<bar> * (5 / 2)) = PInf"
    using round64_eval [of 1024 "\<bar>2 ^ 1023\<bar> * (5 / 2)"]
    by (simp add: roundTo_def roundHalfEven_def Let_def)
  have j: "status (evaluateConstraint (Some (Fin (- (7 / 4) * 2 ^ 1023))) (spinalCord\<lparr>c_limit := Fin (2 ^ 1023)\<rparr>)
               (Some (Fin (5 / 2)))) = Caution"
    using band by (simp add: evaluateConstraint_def jge_def Let_def)
  show ?thesis
    using a b c d e f g h i j by blast
qed

text \<open>
  Claim C2, as amended. For a constraint with a finite limit, a measured value equal to
  the limit is classified caution, with margin 0, for every finite caution fraction
  \<open>p \<ge> 0\<close>, zero included, and for the caution fraction \<^verbatim>\<open>Infinity\<close> when the limit
  is not 0. (For the limit 0 and the caution fraction \<^verbatim>\<open>Infinity\<close> the band is NaN
  and the status is pass.)
\<close>

theorem boundary_is_caution:
  assumes "c_limit c = Fin l" and "isDouble l"
  shows "(0 \<le> p \<longrightarrow>
            evaluateConstraint (Some (Fin l)) c (Some (Fin p))
              = \<lparr>status = Caution, delta = Some (Fin 0)\<rparr>)
       \<and> (l \<noteq> 0 \<longrightarrow>
            evaluateConstraint (Some (Fin l)) c (Some PInf)
              = \<lparr>status = Caution, delta = Some (Fin 0)\<rparr>)
       \<and> (l = 0 \<longrightarrow>
            evaluateConstraint (Some (Fin l)) c (Some PInf)
              = \<lparr>status = Pass, delta = Some (Fin 0)\<rparr>)"
proof (intro conjI impI)
  assume "0 \<le> p"
  then have "jle (Fin 0) (Fin p)"
    by simp
  then have "isNaN (jsub (Fin l) (jmul (jabs (Fin l)) (Fin p)))
           \<or> jle (jsub (Fin l) (jmul (jabs (Fin l)) (Fin p))) (Fin l)"
    using assms(2) by (intro bound_le_limit)
  moreover have "\<not> isNaN (jsub (Fin l) (jmul (jabs (Fin l)) (Fin p)))"
    using round64_not_NaN by (simp add: jsub_Fin_not_NaN)
  ultimately have "jle (jsub (Fin l) (jmul (jabs (Fin l)) (Fin p))) (Fin l)"
    by simp
  then show "evaluateConstraint (Some (Fin l)) c (Some (Fin p))
              = \<lparr>status = Caution, delta = Some (Fin 0)\<rparr>"
    using assms(1) by (simp add: evaluateConstraint_def jge_def Let_def round64_def)
next
  assume "l \<noteq> 0"
  then show "evaluateConstraint (Some (Fin l)) c (Some PInf)
              = \<lparr>status = Caution, delta = Some (Fin 0)\<rparr>"
    using assms(1) by (simp add: evaluateConstraint_def jge_def Let_def round64_def)
next
  assume "l = 0"
  then show "evaluateConstraint (Some (Fin l)) c (Some PInf)
              = \<lparr>status = Pass, delta = Some (Fin 0)\<rparr>"
    using assms(1) by (simp add: evaluateConstraint_def jge_def Let_def round64_def)
qed

theorem boundary_is_caution_witness:
  "evaluateConstraint (Some (Fin 45)) spinalCord (Some (literal 0.05))
     = \<lparr>status = Caution, delta = Some (Fin 0)\<rparr>
   \<and> evaluateConstraint (Some (Fin 45)) spinalCord (Some (Fin 0))
     = \<lparr>status = Caution, delta = Some (Fin 0)\<rparr>
   \<and> evaluateConstraint (Some (Fin 45)) spinalCord (Some PInf)
     = \<lparr>status = Caution, delta = Some (Fin 0)\<rparr>
   \<and> evaluateConstraint (Some (Fin 0)) (spinalCord\<lparr>c_limit := Fin 0\<rparr>) (Some PInf)
     = \<lparr>status = Pass, delta = Some (Fin 0)\<rparr>"
proof -
  have lit: "literal 0.05 = Fin (3602879701896397 / 2 ^ 56)"
    by (simp add: round64_compute)
  have "evaluateConstraint (Some (Fin 45)) spinalCord (Some (Fin (3602879701896397 / 2 ^ 56)))
          = \<lparr>status = Caution, delta = Some (Fin 0)\<rparr>"
    using boundary_is_caution [OF spinalCord_limit isDouble_45, of "3602879701896397 / 2 ^ 56"]
    by simp
  then have a: "evaluateConstraint (Some (Fin 45)) spinalCord (Some (literal 0.05))
          = \<lparr>status = Caution, delta = Some (Fin 0)\<rparr>"
    by (simp only: lit)
  have b: "evaluateConstraint (Some (Fin 45)) spinalCord (Some (Fin 0))
          = \<lparr>status = Caution, delta = Some (Fin 0)\<rparr>"
    using boundary_is_caution [OF spinalCord_limit isDouble_45, of 0] by simp
  have c: "evaluateConstraint (Some (Fin 45)) spinalCord (Some PInf)
          = \<lparr>status = Caution, delta = Some (Fin 0)\<rparr>"
    using boundary_is_caution [OF spinalCord_limit isDouble_45] by simp
  have d: "evaluateConstraint (Some (Fin 0)) (spinalCord\<lparr>c_limit := Fin 0\<rparr>) (Some PInf)
          = \<lparr>status = Pass, delta = Some (Fin 0)\<rparr>"
    using boundary_is_caution [of "spinalCord\<lparr>c_limit := Fin 0\<rparr>" 0] by simp
  show ?thesis
    using a b c d by blast
qed

text \<open>
  The claim C2 as stated fails: at the limit, with the caution fraction 0, the status is
  caution, not pass; and at the limit 0, with the caution fraction \<^verbatim>\<open>Infinity\<close>, which
  is \<open>> 0\<close>, the status is pass, not caution.
\<close>

theorem boundary_zero_band_counterexample:
  "status (evaluateConstraint (Some (Fin 45)) spinalCord (Some (Fin 0))) = Caution
   \<and> status (evaluateConstraint (Some (Fin 45)) spinalCord (Some (Fin 0))) \<noteq> Pass
   \<and> status (evaluateConstraint (Some (Fin 0)) (spinalCord\<lparr>c_limit := Fin 0\<rparr>) (Some PInf)) = Pass"
  by (simp add: evaluateConstraint_def spinalCord_limit jge_def round64_compute)

text \<open>
  Claim C3, as amended. For every constraint and every caution fraction, the result is
  missing with no margin when the measured value is absent or NaN, and in no other case:
  the check comes before every comparison, and \<^verbatim>\<open>+Infinity\<close> and \<^verbatim>\<open>-Infinity\<close> are
  not missing.
\<close>

theorem missing_iff_absent_or_NaN:
  "evaluateConstraint None c p = \<lparr>status = Missing, delta = None\<rparr>
   \<and> evaluateConstraint (Some NaN) c p = \<lparr>status = Missing, delta = None\<rparr>
   \<and> (status (evaluateConstraint measured c p) = Missing) = (measured = None \<or> measured = Some NaN)
   \<and> (delta (evaluateConstraint measured c p) = None) = (measured = None \<or> measured = Some NaN)"
proof (intro conjI)
  show "evaluateConstraint None c p = \<lparr>status = Missing, delta = None\<rparr>"
    by (simp add: evaluateConstraint_def)
  show "evaluateConstraint (Some NaN) c p = \<lparr>status = Missing, delta = None\<rparr>"
    by (simp add: evaluateConstraint_def)
  show "(status (evaluateConstraint measured c p) = Missing) = (measured = None \<or> measured = Some NaN)"
  proof (cases measured)
    case None
    then show ?thesis by (simp add: evaluateConstraint_def)
  next
    case (Some m)
    then show ?thesis by (cases m) (simp_all add: evaluateConstraint_def Let_def)
  qed
  show "(delta (evaluateConstraint measured c p) = None) = (measured = None \<or> measured = Some NaN)"
  proof (cases measured)
    case None
    then show ?thesis by (simp add: evaluateConstraint_def)
  next
    case (Some m)
    then show ?thesis by (cases m) (simp_all add: evaluateConstraint_def Let_def)
  qed
qed

theorem missing_iff_absent_or_NaN_witness:
  "evaluateConstraint None spinalCord (Some (literal 0.05)) = \<lparr>status = Missing, delta = None\<rparr>
   \<and> evaluateConstraint (Some NaN) spinalCord (Some (literal 0.05))
       = \<lparr>status = Missing, delta = None\<rparr>
   \<and> status (evaluateConstraint (Some PInf) spinalCord (Some (literal 0.05))) \<noteq> Missing
   \<and> status (evaluateConstraint (Some NInf) spinalCord (Some (literal 0.05))) \<noteq> Missing"
  using missing_iff_absent_or_NaN [of spinalCord "Some (literal 0.05)" "Some PInf"]
        missing_iff_absent_or_NaN [of spinalCord "Some (literal 0.05)" "Some NInf"]
  by simp

text \<open>
  The claim C3 as stated fails: for the limit 45 Gy and the 5% band, \<^verbatim>\<open>+Infinity\<close> is
  classified fail with the margin \<^verbatim>\<open>-Infinity\<close>, and \<^verbatim>\<open>-Infinity\<close> is classified pass
  with the margin \<^verbatim>\<open>+Infinity\<close>.
\<close>

theorem infinite_measured_counterexample:
  "evaluateConstraint (Some PInf) spinalCord (Some (literal 0.05))
     = \<lparr>status = Fail, delta = Some NInf\<rparr>
   \<and> evaluateConstraint (Some NInf) spinalCord (Some (literal 0.05))
     = \<lparr>status = Pass, delta = Some PInf\<rparr>"
  by (simp add: evaluateConstraint_def spinalCord_limit jge_def round64_compute)

text \<open>
  Claim C10. A call that leaves the caution fraction out gives the result of the call
  with the caution fraction 0.05, for every measured value and every constraint.
\<close>

theorem evaluateConstraint_default:
  "evaluateConstraint measured c None = evaluateConstraint measured c (Some (literal 0.05))"
  by (simp add: evaluateConstraint_def)

theorem evaluateConstraint_default_witness:
  "evaluateConstraint (Some (Fin 44.5)) spinalCord None
     = \<lparr>status = Caution, delta = Some (Fin 0.5)\<rparr>"
proof -
  have "evaluateConstraint (Some (Fin 44.5)) spinalCord (Some (literal 0.05))
          = \<lparr>status = Caution, delta = Some (Fin 0.5)\<rparr>"
    by (simp add: evaluateConstraint_def spinalCord_limit jge_def round64_compute)
  then show ?thesis
    using evaluateConstraint_default [of "Some (Fin 44.5)" spinalCord] by simp
qed

section \<open>The handlers\<close>





text \<open>
  Claim C5, as amended. The Reset handler replaces the constraint list by the seed list,
  whatever the state: five constraints that cover the three metric types and the two
  sites Head & Neck and Thorax. Their ids are the five generated when the module was
  loaded, the same at every reset and the same the component started with. Reset writes
  nothing else: the measurements, the site filter, the band and the draft stay.
\<close>

theorem resetToDefaults_seed:
  "constraints (resetToDefaults uuid st) = starterConstraints uuid
   \<and> constraints (resetToDefaults uuid st) = constraints (initApp uuid)
   \<and> map c_id (starterConstraints uuid) = map uuid [0, 1, 2, 3, 4]
   \<and> c_type ` set (starterConstraints uuid) = {Dmax, Dmean, Vx}
   \<and> c_site ` set (starterConstraints uuid) = {''Head & Neck'', ''Thorax''}
   \<and> measurements (resetToDefaults uuid st) = measurements st
   \<and> siteFilter (resetToDefaults uuid st) = siteFilter st
   \<and> tightBand (resetToDefaults uuid st) = tightBand st
   \<and> newC (resetToDefaults uuid st) = newC st"
  by (auto simp add: resetToDefaults_def starterConstraints_def initApp_def)

theorem resetToDefaults_seed_witness:
  "map c_id (constraints (resetToDefaults uuid0 (run uuid0 vxDraftEvents)))
     = [''seed-'', ''seed-i'', ''seed-ii'', ''seed-iii'', ''seed-iiii'']"
  using resetToDefaults_seed [of uuid0 "run uuid0 vxDraftEvents"]
  by (simp add: uuid0_simps)

text \<open>
  The claim C5 as stated fails: after a measurement for the first seed constraint and a
  reset, the ids are the ones the store held before the reset, and the measurement is
  still there.
\<close>

theorem reset_keeps_ids_and_measurements_counterexample:
  "map c_id (constraints (run uuid0 [SetMeasurement (uuid0 0) (Some (Fin 44)), Reset]))
     = map c_id (constraints (run uuid0 [SetMeasurement (uuid0 0) (Some (Fin 44))]))
   \<and> getMeasurement
        (measurements (run uuid0 [SetMeasurement (uuid0 0) (Some (Fin 44)), Reset])) (uuid0 0)
     = Some (Fin 44)"
  by (simp add: run_def initApp_def resetToDefaults_def setMeasurement_def getMeasurement_def)

text \<open>
  Claim C6. For every state and every id, after \<^verbatim>\<open>removeConstraint(id)\<close> the read
  \<^verbatim>\<open>measurements[id]\<close> gives \<^verbatim>\<open>undefined\<close>, the key is gone from the measurements,
  and no constraint with that id is left.
\<close>

theorem removeConstraint_removes_measurement:
  "getMeasurement (measurements (removeConstraint i st)) i = None
   \<and> i \<notin> dom (measurements (removeConstraint i st))
   \<and> i \<notin> c_id ` set (constraints (removeConstraint i st))"
  by (auto simp add: removeConstraint_def getMeasurement_def)

theorem removeConstraint_removes_measurement_witness:
  "getMeasurement (measurements (run uuid0 [SetMeasurement (uuid0 3) (Some (Fin 10))])) (uuid0 3)
     = Some (Fin 10)
   \<and> getMeasurement
        (measurements (run uuid0 [SetMeasurement (uuid0 3) (Some (Fin 10)), Remove (uuid0 3)]))
        (uuid0 3) = None
   \<and> map c_id (constraints (run uuid0 [SetMeasurement (uuid0 3) (Some (Fin 10)), Remove (uuid0 3)]))
     = [uuid0 0, uuid0 1, uuid0 2, uuid0 4]"
  using removeConstraint_removes_measurement
          [of "uuid0 3" "run uuid0 [SetMeasurement (uuid0 3) (Some (Fin 10))]"]
  by (simp add: run_def initApp_def setMeasurement_def getMeasurement_def removeConstraint_def
      starterConstraints_def uuid0_simps)






section \<open>The summary\<close>

lemma summary_loop_counts:
  "summary_loop ms pct cs acc =
     \<lparr>pass = pass acc + length (filter (\<lambda>c. status (evaluateConstraint (getMeasurement ms (c_id c)) c (Some pct)) = Pass) cs),
      caution = caution acc + length (filter (\<lambda>c. status (evaluateConstraint (getMeasurement ms (c_id c)) c (Some pct)) = Caution) cs),
      fail = fail acc + length (filter (\<lambda>c. status (evaluateConstraint (getMeasurement ms (c_id c)) c (Some pct)) = Fail) cs),
      missing = missing acc + length (filter (\<lambda>c. status (evaluateConstraint (getMeasurement ms (c_id c)) c (Some pct)) = Missing) cs)\<rparr>"
proof (induction cs arbitrary: acc)
  case Nil
  show ?case by simp
next
  case (Cons c cs)
  show ?case
    by (cases "status (evaluateConstraint (getMeasurement ms (c_id c)) c (Some pct))")
       (simp_all add: Cons.IH Let_def)
qed

lemma summary_loop_total:
  "pass (summary_loop ms pct cs acc) + caution (summary_loop ms pct cs acc)
     + fail (summary_loop ms pct cs acc) + missing (summary_loop ms pct cs acc)
   = pass acc + caution acc + fail acc + missing acc + length cs"
proof (induction cs arbitrary: acc)
  case Nil
  show ?case by simp
next
  case (Cons c cs)
  show ?case
    by (cases "status (evaluateConstraint (getMeasurement ms (c_id c)) c (Some pct))")
       (simp_all add: Cons.IH Let_def)
qed

text \<open>
  Claim C7. For every constraint list, measurement map, caution fraction and site filter
  (All included), the four counts of the summary over the filtered list add up to the
  length of the filtered list; each count is the number of filtered constraints that
  \<^verbatim>\<open>evaluateConstraint\<close> gives that status; and so the counts the component shows add
  up to the number of rows it shows.
\<close>

theorem summarize_counts:
  "pass (summarize (filterBySite cs sf) ms pct) + caution (summarize (filterBySite cs sf) ms pct)
     + fail (summarize (filterBySite cs sf) ms pct) + missing (summarize (filterBySite cs sf) ms pct)
   = length (filterBySite cs sf)
   \<and> pass (summarize fl ms pct)
       = length (filter (\<lambda>c. status (evaluateConstraint (getMeasurement ms (c_id c)) c (Some pct)) = Pass) fl)
   \<and> caution (summarize fl ms pct)
       = length (filter (\<lambda>c. status (evaluateConstraint (getMeasurement ms (c_id c)) c (Some pct)) = Caution) fl)
   \<and> fail (summarize fl ms pct)
       = length (filter (\<lambda>c. status (evaluateConstraint (getMeasurement ms (c_id c)) c (Some pct)) = Fail) fl)
   \<and> missing (summarize fl ms pct)
       = length (filter (\<lambda>c. status (evaluateConstraint (getMeasurement ms (c_id c)) c (Some pct)) = Missing) fl)
   \<and> pass (summary st) + caution (summary st) + fail (summary st) + missing (summary st)
       = length (filtered st)"
proof (intro conjI)
  show "pass (summarize (filterBySite cs sf) ms pct) + caution (summarize (filterBySite cs sf) ms pct)
     + fail (summarize (filterBySite cs sf) ms pct) + missing (summarize (filterBySite cs sf) ms pct)
   = length (filterBySite cs sf)"
    by (simp add: summarize_def summary_loop_total)
  show "pass (summary st) + caution (summary st) + fail (summary st) + missing (summary st)
       = length (filtered st)"
    by (simp add: summary_def summarize_def summary_loop_total)
qed (simp_all add: summarize_def summary_loop_counts)

text \<open>
  With the filter Thorax, two of the five seed constraints are counted: the lung one,
  measured 10 against 35, passes, and the heart one has no measurement. With the
  filter All and no measurement, the counts add up to five.
\<close>

theorem summarize_counts_witness:
  "pass (summary thoraxState) + caution (summary thoraxState) + fail (summary thoraxState)
     + missing (summary thoraxState) = 2
   \<and> summary thoraxState = \<lparr>pass = 1, caution = 0, fail = 0, missing = 1\<rparr>
   \<and> pass (summary (initApp uuid0)) + caution (summary (initApp uuid0))
     + fail (summary (initApp uuid0)) + missing (summary (initApp uuid0)) = 5"
proof -
  have a: "length (filtered thoraxState) = 2"
    by (simp add: thoraxState_def run_def initApp_def setMeasurement_def filtered_def
        filterBySite_def starterConstraints_def)
  have b: "length (filtered (initApp uuid0)) = 5"
    by (simp add: initApp_def filtered_def filterBySite_def starterConstraints_def)
  have c: "summary thoraxState = \<lparr>pass = 1, caution = 0, fail = 0, missing = 1\<rparr>"
    by (simp add: thoraxState_def run_def initApp_def setMeasurement_def filtered_def
        filterBySite_def starterConstraints_def summary_def summarize_def cautionPct_def
        getMeasurement_def evaluateConstraint_def jge_def uuid0_simps round64_compute)
  show ?thesis
    using summarize_counts [of _ _ _ _ _ thoraxState]
          summarize_counts [of _ _ _ _ _ "initApp uuid0"] a b c
    by simp
qed

section \<open>The structured export and its reading\<close>













end
